theory Spec2Isabelle
  imports Main "HOL-Library.Sublist"
begin

section \<open>Errors and JavaScript values\<close>

text \<open>
  The module \<^verbatim>\<open>src/api-utils.ts\<close> is embedded function by function. A JavaScript
  exception is a value of type \<open>error\<close>; a function that can throw returns
  \<open>error + 'a\<close>, with \<open>Inl\<close> for the exception.
  \<^item> \<open>TypeError\<close> is what the engine raises when a property is read from
    \<^verbatim>\<open>undefined\<close>;
  \<^item> \<open>Thrown s\<close> is an exception raised inside a library call, \<open>s\<close> naming it;
  \<^item> \<open>Error p e\<close> is \<^verbatim>\<open>new Error(`${p}${e}`)\<close>, the wrapper of the \<^verbatim>\<open>catch\<close> blocks.
\<close>

datatype error = TypeError | Thrown string | Error string error

text \<open>
  An object, a property or an argument that may be \<^verbatim>\<open>undefined\<close> is an \<open>option\<close>,
  \<open>None\<close> being \<^verbatim>\<open>undefined\<close>; reading a property from \<open>None\<close> is a \<open>TypeError\<close>
  unless the source reads it behind \<^verbatim>\<open>?.\<close>. The fields of a result keep
  \<^verbatim>\<open>undefined\<close> and \<^verbatim>\<open>null\<close> apart.
\<close>

datatype 'a nullable = Undefined | Null | Val 'a

text \<open>
  A string or \<^verbatim>\<open>undefined\<close> as a condition (a string is truthy when it is not
  empty), as an operand of string \<^verbatim>\<open>+\<close>, under \<^verbatim>\<open>?? null\<close>, and as it is.
\<close>

definition truthy :: "string option \<Rightarrow> bool" where
  "truthy x = (case x of None \<Rightarrow> False | Some s \<Rightarrow> s \<noteq> [])"

definition as_string :: "string option \<Rightarrow> string" where
  "as_string x = (case x of None \<Rightarrow> ''undefined'' | Some s \<Rightarrow> s)"

definition or_null :: "'a option \<Rightarrow> 'a nullable" where
  "or_null x = (case x of None \<Rightarrow> Null | Some v \<Rightarrow> Val v)"

definition or_undefined :: "'a option \<Rightarrow> 'a nullable" where
  "or_undefined x = (case x of None \<Rightarrow> Undefined | Some v \<Rightarrow> Val v)"

section \<open>Offering eligibility: \<^verbatim>\<open>isMatchingOffering\<close>\<close>

subsection \<open>Data\<close>

text \<open>
  Modelled from the spec: the types \<^verbatim>\<open>Offering\<close> and \<^verbatim>\<open>VcDataModel\<close>, which the
  libraries \<^verbatim>\<open>@tbdex/http-client\<close> and \<^verbatim>\<open>@web5/credentials\<close> declare. The records have
  the fields the function reads, under the names of the source (\<open>filter'\<close> and
  \<open>fields'\<close> for \<^verbatim>\<open>filter\<close> and \<^verbatim>\<open>fields\<close>, \<open>offering_data\<close> for the \<^verbatim>\<open>data\<close> of
  an offering).
  \<^item> A decoded credential is a \<^verbatim>\<open>Partial<VcDataModel>\<close>: the claims of its subject, its
    issuer identifier and its list of type tags may each be absent.
  \<^item> A constraint field has its \<^verbatim>\<open>path\<close>, an array of path strings, so that
    \<^verbatim>\<open>path.includes(x)\<close> is membership. Its \<^verbatim>\<open>filter\<close> may be absent, and so may the
    required value \<^verbatim>\<open>const\<close> of a filter. The type \<open>'c\<close> of the value is left open
    (the library has number, string or boolean).
  \<^item> The descriptors of an offering are an array, possibly empty.
\<close>

record vc =
  credentialSubject :: "(string \<times> string) list option"
  issuer :: "string option"
  type :: "string list option"

record 'c filter =
  const :: "'c option"

record 'c field =
  path :: "string list"
  filter' :: "'c filter option"

record 'c constraints =
  fields' :: "'c field list"

record 'c input_descriptor =
  constraints :: "'c constraints"

record 'c presentation_definition =
  input_descriptors :: "'c input_descriptor list"

record 'c offering_data =
  requiredClaims :: "'c presentation_definition"

record 'c offering =
  offering_data :: "'c offering_data"

text \<open>
  What the function takes from outside the module:
  \<^item> \<open>Jwt_parse\<close> is \<^verbatim>\<open>Jwt.parse({ jwt }).decoded.payload['vc']\<close>, applied to
    \<^verbatim>\<open>credentials[0]\<close> (\<open>None\<close> when the array is empty and the element is
    \<^verbatim>\<open>undefined\<close>); it throws on a token it cannot decode, and gives \<open>None\<close> when the
    payload of the token has no \<^verbatim>\<open>vc\<close> entry;
  \<^item> \<open>const_equals c s\<close> is the loose equality \<^verbatim>\<open>c == s\<close> of a filter constant and a
    string;
  \<^item> \<open>const_toString\<close> is \<^verbatim>\<open>c.toString()\<close>.
\<close>

record 'c env =
  Jwt_parse :: "string option \<Rightarrow> error + vc option"
  const_equals :: "'c \<Rightarrow> string \<Rightarrow> bool"
  const_toString :: "'c \<Rightarrow> string"

subsection \<open>The function\<close>

text \<open>
  \<^verbatim>\<open>for (const key in obj)\<close> visits each property name of an object once, and
  nothing when \<open>obj\<close> is \<^verbatim>\<open>undefined\<close>.
\<close>

definition for_in :: "(string \<times> 'v) list option \<Rightarrow> string list" where
  "for_in obj = (case obj of None \<Rightarrow> [] | Some kvs \<Rightarrow> remdups (map fst kvs))"

text \<open>The inner loop, lines 70 to 74; \<open>matches\<close> is the counter.\<close>

fun subject_loop :: "string list \<Rightarrow> string list \<Rightarrow> nat \<Rightarrow> nat" where
  "subject_loop p [] matches = matches"
| "subject_loop p (key # keys) matches =
     subject_loop p keys
       (if ''$.credentialSubject.'' @ key \<in> set p then matches + 1 else matches)"

text \<open>
  Line 75: \<^verbatim>\<open>field.path.includes(`$.issuer`) && vc.issuer && field.filter.const == vc.issuer\<close>.
  A string is truthy when it is not empty. The third operand is evaluated when the
  first two are truthy: it throws when the field has no filter, and
  \<^verbatim>\<open>undefined == s\<close> is false for a string \<open>s\<close>.
\<close>

definition issuer_step :: "'c env \<Rightarrow> vc \<Rightarrow> 'c field \<Rightarrow> nat \<Rightarrow> error + nat" where
  "issuer_step E v f matches =
     (case issuer v of
        None \<Rightarrow> Inr matches
      | Some i \<Rightarrow>
          if ''$.issuer'' \<in> set (path f) \<and> i \<noteq> [] then
            (case filter' f of
               None \<Rightarrow> Inl TypeError
             | Some flt \<Rightarrow>
                 Inr (if (case const flt of None \<Rightarrow> False | Some c \<Rightarrow> const_equals E c i)
                      then matches + 1 else matches))
          else Inr matches)"

text \<open>
  Line 78: \<^verbatim>\<open>field.path.includes(`$.type[*]`) && vc.type && vc.type.includes(field.filter.const.toString())\<close>.
  An array is truthy, also when empty. The third operand throws when the field has no
  filter and when the filter has no \<^verbatim>\<open>const\<close>.
\<close>

definition type_step :: "'c env \<Rightarrow> vc \<Rightarrow> 'c field \<Rightarrow> nat \<Rightarrow> error + nat" where
  "type_step E v f matches =
     (case type v of
        None \<Rightarrow> Inr matches
      | Some ts \<Rightarrow>
          if ''$.type[*]'' \<in> set (path f) then
            (case filter' f of
               None \<Rightarrow> Inl TypeError
             | Some flt \<Rightarrow>
                 (case const flt of
                    None \<Rightarrow> Inl TypeError
                  | Some c \<Rightarrow>
                      Inr (if const_toString E c \<in> set ts then matches + 1 else matches)))
          else Inr matches)"

text \<open>
  The body of the outer loop for one field, and the loop, lines 69 to 81. Reading
  \<^verbatim>\<open>vc.credentialSubject\<close> in line 70 throws when \<^verbatim>\<open>vc\<close> is \<^verbatim>\<open>undefined\<close>.
\<close>

definition field_body :: "'c env \<Rightarrow> vc \<Rightarrow> 'c field \<Rightarrow> nat \<Rightarrow> error + nat" where
  "field_body E v f matches =
     (case issuer_step E v f
             (subject_loop (path f) (for_in (credentialSubject v)) matches) of
        Inl e \<Rightarrow> Inl e
      | Inr m \<Rightarrow> type_step E v f m)"

fun fields_loop :: "'c env \<Rightarrow> vc option \<Rightarrow> 'c field list \<Rightarrow> nat \<Rightarrow> error + nat" where
  "fields_loop E vo [] matches = Inr matches"
| "fields_loop E vo (f # fs) matches =
     (case vo of
        None \<Rightarrow> Inl TypeError
      | Some v \<Rightarrow>
          (case field_body E v f matches of
             Inl e \<Rightarrow> Inl e
           | Inr m \<Rightarrow> fields_loop E vo fs m))"

text \<open>
  \<^verbatim>\<open>credentials[0]\<close>, and the function. The token is decoded first; then
  \<^verbatim>\<open>input_descriptors[0]\<close> is read, which is \<^verbatim>\<open>undefined\<close> for an empty array, and
  reading \<^verbatim>\<open>.constraints\<close> from it throws. \<^verbatim>\<open>Object.keys(fields).length\<close> is the length
  of the array.
\<close>

definition first_credential :: "string list \<Rightarrow> string option" where
  "first_credential credentials = (case credentials of [] \<Rightarrow> None | c # _ \<Rightarrow> Some c)"

definition isMatchingOffering :: "'c env \<Rightarrow> 'c offering \<Rightarrow> string list \<Rightarrow> error + bool" where
  "isMatchingOffering E offering credentials =
     (case Jwt_parse E (first_credential credentials) of
        Inl e \<Rightarrow> Inl e
      | Inr vo \<Rightarrow>
          (case input_descriptors (requiredClaims (offering_data offering)) of
             [] \<Rightarrow> Inl TypeError
           | d # _ \<Rightarrow>
               (case fields_loop E vo (fields' (constraints d)) 0 of
                  Inl e \<Rightarrow> Inl e
                | Inr matches \<Rightarrow> Inr (matches = length (fields' (constraints d))))))"

subsection \<open>The match count in the words of the specification\<close>

text \<open>
  The count is written here from the description, not from the loops: the claim keys
  of a credential are the set of names in its subject; a constraint's required value
  is the \<^verbatim>\<open>const\<close> of its filter, when it has both. Per constraint the count has
  \<^item> one for every claim key \<open>k\<close> whose path \<^verbatim>\<open>$.credentialSubject.k\<close> the constraint
    lists,
  \<^item> one when the constraint lists \<^verbatim>\<open>$.issuer\<close> and its required value equals the
    credential's issuer,
  \<^item> one when the constraint lists \<^verbatim>\<open>$.type[*]\<close> and the credential's type list
    contains its required value;
  and the total is the sum over the constraints. \<open>claimed_match_count\<close> is this
  count; \<open>match_count\<close> counts an issuer constraint only when the credential's issuer
  is not the empty string.
\<close>

definition claim_keys :: "vc \<Rightarrow> string set" where
  "claim_keys v = (case credentialSubject v of None \<Rightarrow> {} | Some claims \<Rightarrow> fst ` set claims)"

definition required_value :: "'c field \<Rightarrow> 'c option" where
  "required_value f = (case filter' f of None \<Rightarrow> None | Some flt \<Rightarrow> const flt)"

definition subject_matches :: "vc \<Rightarrow> 'c field \<Rightarrow> nat" where
  "subject_matches v f =
     card (Set.filter (\<lambda>k. ''$.credentialSubject.'' @ k \<in> set (path f)) (claim_keys v))"

definition issuer_equal :: "'c env \<Rightarrow> vc \<Rightarrow> 'c field \<Rightarrow> bool" where
  "issuer_equal E v f =
     (''$.issuer'' \<in> set (path f) \<and>
      (case required_value f of
         None \<Rightarrow> False
       | Some c \<Rightarrow> (case issuer v of None \<Rightarrow> False | Some i \<Rightarrow> const_equals E c i)))"

definition type_member :: "'c env \<Rightarrow> vc \<Rightarrow> 'c field \<Rightarrow> bool" where
  "type_member E v f =
     (''$.type[*]'' \<in> set (path f) \<and>
      (case required_value f of
         None \<Rightarrow> False
       | Some c \<Rightarrow> (case type v of None \<Rightarrow> False | Some ts \<Rightarrow> const_toString E c \<in> set ts)))"

definition claimed_match_count :: "'c env \<Rightarrow> vc \<Rightarrow> 'c field list \<Rightarrow> nat" where
  "claimed_match_count E v fs =
     sum_list (map (\<lambda>f. subject_matches v f + of_bool (issuer_equal E v f)
                        + of_bool (type_member E v f)) fs)"

definition match_count :: "'c env \<Rightarrow> vc \<Rightarrow> 'c field list \<Rightarrow> nat" where
  "match_count E v fs =
     sum_list (map (\<lambda>f. subject_matches v f
                        + of_bool (issuer_equal E v f \<and> issuer v \<noteq> Some [])
                        + of_bool (type_member E v f)) fs)"

text \<open>
  A constraint that addresses the issuer or the type list carries its required value.
\<close>

definition carries_required_value :: "'c field \<Rightarrow> bool" where
  "carries_required_value f =
     (if ''$.issuer'' \<in> set (path f) \<or> ''$.type[*]'' \<in> set (path f)
      then required_value f \<noteq> None else True)"

section \<open>Exchange status and summary\<close>

subsection \<open>Strings\<close>

text \<open>
  \<^verbatim>\<open>s.includes(sub)\<close> on strings: \<open>sub\<close> occurs in \<open>s\<close> as a contiguous run.
\<close>

fun starts_with :: "string \<Rightarrow> string \<Rightarrow> bool" where
  "starts_with s [] = True"
| "starts_with [] (c # cs) = False"
| "starts_with (x # xs) (c # cs) = (x = c \<and> starts_with xs cs)"

fun String_includes :: "string \<Rightarrow> string \<Rightarrow> bool" where
  "String_includes [] sub = (sub = [])"
| "String_includes (x # xs) sub = (starts_with (x # xs) sub \<or> String_includes xs sub)"

text \<open>
  \<^verbatim>\<open>toLowerCase\<close>. A \<open>char\<close> is a byte: the letters \<open>A\<close> to \<open>Z\<close> (codes 65 to 90)
  go to \<open>a\<close> to \<open>z\<close>, every other byte stays.
\<close>

definition char_toLowerCase :: "char \<Rightarrow> char" where
  "char_toLowerCase c =
     (let n = (of_char c :: nat) in if 65 \<le> n \<and> n \<le> 90 then char_of (n + 32) else c)"

definition toLowerCase :: "string \<Rightarrow> string" where
  "toLowerCase s = map char_toLowerCase s"

subsection \<open>Messages\<close>

text \<open>
  Modelled from the spec: the message classes, which the library
  \<^verbatim>\<open>@tbdex/http-client\<close> declares. The record has what this module reads from a
  message: whether it is an instance of class \<^verbatim>\<open>Close\<close>, the getters \<^verbatim>\<open>kind\<close> and
  \<^verbatim>\<open>createdAt\<close>, \<^verbatim>\<open>metadata.exchangeId\<close> and \<^verbatim>\<open>metadata.to\<close>, and the entries of \<^verbatim>\<open>data\<close>
  and \<^verbatim>\<open>privateData\<close>. The kind is a string: the source compares it and passes it on as
  the status. An entry that may be absent is an \<open>option\<close>: the free-text
  \<^verbatim>\<open>data.reason\<close>, the payloads of a quote and their entries, the private data of an
  rfq, its \<^verbatim>\<open>payout\<close> and the payment details in it.
\<close>

record payment =
  amount :: "string option"
  fee :: "string option"
  currencyCode :: "string option"

record payment_details =
  address :: "string option"
  accountNumber :: "string option"
  bankName :: "string option"

record private_payout =
  paymentDetails :: "payment_details option"

record private_data =
  payout :: "private_payout option"

record message =
  instanceof_Close :: bool
  kind :: string
  createdAt :: string
  metadata_exchangeId :: string
  metadata_to :: string
  data_reason :: "string option"
  data_payinAmount :: "string option"
  data_payin :: "payment option"
  data_payout :: "payment option"
  data_expiresAt :: "string option"
  privateData :: "private_data option"

text \<open>
  The type \<^verbatim>\<open>ClientExchange\<close> as the object literal of lines 101 to 113 builds it.
  \<open>expirationTime\<close> is \<open>None\<close> when the object has no such property.
\<close>

record ClientExchange =
  id' :: string
  payinAmount :: "string nullable"
  payinCurrency :: "string nullable"
  payoutAmount :: "string nullable"
  payoutCurrency :: "string nullable"
  status :: string
  createdTime :: string
  expirationTime :: "string nullable option"
  "from" :: string
  to :: string
  pfiDid :: string

text \<open>
  JavaScript numbers are floating point and are not modelled: the projector takes
  \<^verbatim>\<open>Number(x)\<close> (of a string or \<^verbatim>\<open>undefined\<close>), \<^verbatim>\<open>+\<close> on numbers and
  \<^verbatim>\<open>n.toString()\<close> as parameters over a type \<open>'n\<close> of numbers.
\<close>

record 'n number_ops =
  Number :: "string option \<Rightarrow> 'n"
  add :: "'n \<Rightarrow> 'n \<Rightarrow> 'n"
  Number_toString :: "'n \<Rightarrow> string"

subsection \<open>\<^verbatim>\<open>generateExchangeStatusValues\<close> and \<^verbatim>\<open>renderOrderStatus\<close>\<close>

text \<open>
  The argument is a message or \<^verbatim>\<open>undefined\<close>. \<^verbatim>\<open>undefined instanceof Close\<close> is false,
  and line 133 then throws on \<^verbatim>\<open>undefined.kind\<close>; line 123 throws on
  \<^verbatim>\<open>reason.toLowerCase()\<close> when a \<^verbatim>\<open>Close\<close> has no reason. The local \<^verbatim>\<open>status\<close> of
  \<^verbatim>\<open>renderOrderStatus\<close> is \<open>status_v\<close>.
\<close>

definition generateExchangeStatusValues :: "message option \<Rightarrow> error + string" where
  "generateExchangeStatusValues exchangeMessage =
     (case exchangeMessage of
        None \<Rightarrow> Inl TypeError
      | Some m \<Rightarrow>
          if instanceof_Close m then
            (case data_reason m of
               None \<Rightarrow> Inl TypeError
             | Some reason \<Rightarrow>
                 Inr (if String_includes (toLowerCase reason) ''complete''
                         \<or> String_includes (toLowerCase reason) ''success''
                      then ''completed''
                      else if String_includes (toLowerCase reason) ''expired''
                      then ''expired''
                      else if String_includes (toLowerCase reason) ''cancelled''
                      then ''cancelled''
                      else ''failed''))
          else Inr (kind m))"

definition renderOrderStatus :: "message option \<Rightarrow> error + string" where
  "renderOrderStatus exchange =
     (case generateExchangeStatusValues exchange of
        Inl e \<Rightarrow> Inl e
      | Inr status_v \<Rightarrow>
          Inr (if status_v = ''rfq'' then ''Requested''
               else if status_v = ''quote'' then ''Quoted''
               else if status_v = ''order'' \<or> status_v = ''orderstatus'' then ''Pending''
               else if status_v = ''completed'' then ''Completed''
               else if status_v = ''expired'' then ''Expired''
               else if status_v = ''cancelled'' then ''Cancelled''
               else if status_v = ''failed'' then ''Failed''
               else ''Unknown status''))"

subsection \<open>The projection of one exchange, lines 93 to 114\<close>

text \<open>
  Line 100, \<^verbatim>\<open>rfqMessage.privateData?.payout.paymentDetails\<close>: \<^verbatim>\<open>undefined\<close> when the
  rfq has no private data, and a \<open>TypeError\<close> when the private data has no
  \<^verbatim>\<open>payout\<close>.
\<close>

definition payout_paymentDetails :: "message \<Rightarrow> error + payment_details option" where
  "payout_paymentDetails rfqMessage =
     (case privateData rfqMessage of
        None \<Rightarrow> Inr None
      | Some pd \<Rightarrow> (case payout pd of None \<Rightarrow> Inl TypeError | Some po \<Rightarrow> Inr (paymentDetails po)))"

text \<open>
  The arrow function. \<^verbatim>\<open>find\<close> gives the first message of a kind, or \<^verbatim>\<open>undefined\<close>;
  the last element of an empty array is \<^verbatim>\<open>undefined\<close>, on which line 97 throws.
  Reading \<^verbatim>\<open>.privateData\<close> of a missing rfq (line 100) and \<^verbatim>\<open>.data\<close> of a missing quote
  (line 104) throw \<open>TypeError\<close>. In line 111, \<^verbatim>\<open>+\<close> binds tighter than \<^verbatim>\<open>||\<close>. The
  locals \<^verbatim>\<open>status\<close>, \<^verbatim>\<open>fee\<close> and \<^verbatim>\<open>payinAmount\<close> have the suffix \<open>_v\<close>, \<open>total\<close> is the
  left operand of \<^verbatim>\<open>||\<close> in line 103 and \<open>account\<close> the middle operand in line 111.
\<close>

definition projectExchange :: "'n number_ops \<Rightarrow> message list \<Rightarrow> error + ClientExchange" where
  "projectExchange N exchange =
     (let latest = (if exchange = [] then None else Some (last exchange));
          rfq = find (\<lambda>message. kind message = ''rfq'') exchange;
          quote = find (\<lambda>message. kind message = ''quote'') exchange
      in case generateExchangeStatusValues latest of
           Inl e \<Rightarrow> Inl e
         | Inr status_v \<Rightarrow>
             (let latestMessage = last exchange;
                  fee_v = Option.bind (Option.bind quote data_payin) fee;
                  payinAmount_v = Option.bind (Option.bind quote data_payin) amount
              in case rfq of
                   None \<Rightarrow> Inl TypeError
                 | Some rfqMessage \<Rightarrow>
                     (case payout_paymentDetails rfqMessage of
                        Inl e \<Rightarrow> Inl e
                      | Inr payoutPaymentDetails \<Rightarrow>
                          (let total = Number_toString N
                                 (if truthy fee_v
                                  then add N (Number N payinAmount_v) (Number N fee_v)
                                  else Number N payinAmount_v);
                               account =
                                 as_string (Option.bind payoutPaymentDetails accountNumber)
                                 @ '', ''
                                 @ as_string (Option.bind payoutPaymentDetails bankName)
                           in (case quote of
                                 None \<Rightarrow> Inl TypeError
                               | Some quoteMessage \<Rightarrow>
                                   Inr \<lparr>id' = metadata_exchangeId latestMessage,
                                        payinAmount =
                                          (if total \<noteq> [] then Val total
                                           else or_undefined (data_payinAmount rfqMessage)),
                                        payinCurrency =
                                          or_null (Option.bind (data_payin quoteMessage)
                                                     currencyCode),
                                        payoutAmount =
                                          or_null (Option.bind (data_payout quoteMessage)
                                                     amount),
                                        payoutCurrency =
                                          or_undefined (Option.bind (data_payout quoteMessage)
                                                          currencyCode),
                                        status = status_v,
                                        createdTime = createdAt rfqMessage,
                                        expirationTime =
                                          (if kind latestMessage = ''quote''
                                           then Some (or_null (data_expiresAt quoteMessage))
                                           else None),
                                        from = ''You'',
                                        to =
                                          (if truthy (Option.bind payoutPaymentDetails address)
                                           then as_string
                                                  (Option.bind payoutPaymentDetails address)
                                           else if account \<noteq> [] then account
                                           else ''Unknown''),
                                        pfiDid = metadata_to rfqMessage\<rparr>)))))"

text \<open>
  \<^verbatim>\<open>exchanges.map\<close> stops at the first exchange whose projection throws;
  \<^verbatim>\<open>fetchExchanges\<close> wraps whatever the client call or the mapping throws. The result
  of \<^verbatim>\<open>TbdexHttpClient.getExchanges\<close> is the argument \<open>fetched\<close>.
\<close>

fun map_throwing :: "('a \<Rightarrow> error + 'b) \<Rightarrow> 'a list \<Rightarrow> error + 'b list" where
  "map_throwing f [] = Inr []"
| "map_throwing f (x # xs) =
     (case f x of
        Inl e \<Rightarrow> Inl e
      | Inr y \<Rightarrow> (case map_throwing f xs of Inl e \<Rightarrow> Inl e | Inr ys \<Rightarrow> Inr (y # ys)))"

definition fetchExchanges ::
  "'n number_ops \<Rightarrow> error + message list list \<Rightarrow> error + ClientExchange list" where
  "fetchExchanges N fetched =
     (case fetched of
        Inl e \<Rightarrow> Inl (Error ''Error fetching exchanges: '' e)
      | Inr exchanges \<Rightarrow>
          (case map_throwing (projectExchange N) exchanges of
             Inl e \<Rightarrow> Inl (Error ''Error fetching exchanges: '' e)
           | Inr mappedExchanges \<Rightarrow> Inr mappedExchanges))"

section \<open>Specification-side definitions for the status\<close>



text \<open>
  The display strings of the eight status values, and the label of a status: its
  display string, or \<open>Unknown status\<close> for a string that is none of the eight.
\<close>

definition status_labels :: "(string \<times> string) list" where
  "status_labels =
     [(''rfq'', ''Requested''), (''quote'', ''Quoted''), (''order'', ''Pending''),
      (''orderstatus'', ''Pending''), (''completed'', ''Completed''),
      (''expired'', ''Expired''), (''cancelled'', ''Cancelled''), (''failed'', ''Failed'')]"

definition status_label :: "string \<Rightarrow> string" where
  "status_label s =
     (case map_of status_labels s of Some label \<Rightarrow> label | None \<Rightarrow> ''Unknown status'')"

text \<open>A message on which reading the reason cannot fail.\<close>

definition has_reason_if_Close :: "message \<Rightarrow> bool" where
  "has_reason_if_Close m = (if instanceof_Close m then data_reason m \<noteq> None else True)"

section \<open>Concrete parameters and inputs\<close>

text \<open>
  An environment whose filter constants are strings: \<^verbatim>\<open>==\<close> of two strings is
  equality and \<^verbatim>\<open>toString\<close> of a string is the string.
\<close>

definition string_env :: "(string option \<Rightarrow> error + vc option) \<Rightarrow> string env" where
  "string_env parse = \<lparr>Jwt_parse = parse, const_equals = (=), const_toString = (\<lambda>c. c)\<rparr>"

text \<open>
  Numbers for evaluating examples: the naturals and \<open>NaN\<close> (\<open>None\<close>). On
  \<^verbatim>\<open>undefined\<close>, on the empty string and on strings of decimal digits this is what
  JavaScript computes as long as the values stay below \<open>2^53\<close>; other numerals
  (signs, fractions, exponents, blanks) are outside this instance, which reads them
  as \<open>NaN\<close>.
\<close>

definition digit_value :: "char \<Rightarrow> nat option" where
  "digit_value c =
     (let n = (of_char c :: nat) in if 48 \<le> n \<and> n \<le> 57 then Some (n - 48) else None)"

fun decimal_value :: "string \<Rightarrow> nat \<Rightarrow> nat option" where
  "decimal_value [] acc = Some acc"
| "decimal_value (c # cs) acc =
     (case digit_value c of None \<Rightarrow> None | Some d \<Rightarrow> decimal_value cs (10 * acc + d))"

fun decimal_digits :: "nat \<Rightarrow> string" where
  "decimal_digits n =
     (if n < 10 then [char_of (48 + n)]
      else decimal_digits (n div 10) @ [char_of (48 + n mod 10)])"

declare decimal_digits.simps [simp del]

definition decimal_numbers :: "nat option number_ops" where
  "decimal_numbers =
     \<lparr>Number = (\<lambda>x. case x of None \<Rightarrow> None | Some s \<Rightarrow> decimal_value s 0),
      add = (\<lambda>a b. case (a, b) of (Some m, Some n) \<Rightarrow> Some (m + n) | _ \<Rightarrow> None),
      Number_toString = (\<lambda>a. case a of None \<Rightarrow> ''NaN'' | Some n \<Rightarrow> decimal_digits n)\<rparr>"

text \<open>
  Two credentials, the second with the empty string as issuer, a decoder that knows
  their tokens and the token of a payload without \<^verbatim>\<open>vc\<close>, and constraint fields.
\<close>

definition kcc_vc :: vc where
  "kcc_vc =
     \<lparr>credentialSubject = Some [(''name'', ''Ada''), (''country'', ''KE'')],
      issuer = Some ''did:dht:issuer'',
      type = Some [''VerifiableCredential'', ''KccCredential'']\<rparr>"

definition unissued_vc :: vc where
  "unissued_vc = \<lparr>credentialSubject = Some [(''name'', ''Ada'')], issuer = Some [], type = None\<rparr>"

definition kcc_parse :: "string option \<Rightarrow> error + vc option" where
  "kcc_parse token =
     (if token = Some ''jwt1'' then Inr (Some kcc_vc)
      else if token = Some ''jwt0'' then Inr (Some unissued_vc)
      else if token = Some ''jwt'' then Inr None
      else Inl (Thrown ''Jwt.parse''))"

definition offering_of :: "string field list list \<Rightarrow> string offering" where
  "offering_of fss =
     \<lparr>offering_data = \<lparr>requiredClaims =
        \<lparr>input_descriptors = map (\<lambda>fs. \<lparr>constraints = \<lparr>fields' = fs\<rparr>\<rparr>) fss\<rparr>\<rparr>\<rparr>"

definition field_of :: "string list \<Rightarrow> string \<Rightarrow> string field" where
  "field_of p c = \<lparr>path = p, filter' = Some \<lparr>const = Some c\<rparr>\<rparr>"

definition type_field :: "string field" where
  "type_field = field_of [''$.type[*]''] ''KccCredential''"

definition issuer_field :: "string field" where
  "issuer_field = field_of [''$.issuer''] ''did:dht:issuer''"

definition other_issuer_field :: "string field" where
  "other_issuer_field = field_of [''$.issuer''] ''did:dht:other''"

definition empty_issuer_field :: "string field" where
  "empty_issuer_field = field_of [''$.issuer''] []"

definition country_field :: "string field" where
  "country_field = \<lparr>path = [''$.credentialSubject.country''], filter' = None\<rparr>"

definition name_or_country_field :: "string field" where
  "name_or_country_field =
     \<lparr>path = [''$.credentialSubject.name'', ''$.credentialSubject.country''], filter' = None\<rparr>"

definition type_pattern_field :: "string field" where
  "type_pattern_field = \<lparr>path = [''$.type[*]''], filter' = Some \<lparr>const = None\<rparr>\<rparr>"

definition issuer_unfiltered_field :: "string field" where
  "issuer_unfiltered_field = \<lparr>path = [''$.issuer''], filter' = None\<rparr>"

text \<open>Messages of one exchange.\<close>

definition blank_message :: message where
  "blank_message =
     \<lparr>instanceof_Close = False, kind = ''order'', createdAt = ''T'',
      metadata_exchangeId = ''ex1'', metadata_to = ''PFI1'', data_reason = None,
      data_payinAmount = None, data_payin = None, data_payout = None,
      data_expiresAt = None, privateData = None\<rparr>"

definition rfq_bare :: message where
  "rfq_bare = blank_message\<lparr>kind := ''rfq'', createdAt := ''T0'', data_payinAmount := Some ''100''\<rparr>"

definition rfq_addr :: message where
  "rfq_addr =
     rfq_bare\<lparr>privateData := Some \<lparr>payout = Some \<lparr>paymentDetails =
       Some \<lparr>address = Some ''addr1'', accountNumber = None, bankName = None\<rparr>\<rparr>\<rparr>\<rparr>"

definition quote_full :: message where
  "quote_full =
     blank_message\<lparr>kind := ''quote'', createdAt := ''T1'', metadata_to := ''did:customer'',
       data_payin := Some \<lparr>amount = Some ''100'', fee = Some ''5'', currencyCode = Some ''USD''\<rparr>,
       data_payout := Some \<lparr>amount = Some ''90'', fee = None, currencyCode = Some ''KES''\<rparr>,
       data_expiresAt := Some ''2024-01-01''\<rparr>"

definition close_with :: "string option \<Rightarrow> message" where
  "close_with r =
     blank_message\<lparr>instanceof_Close := True, kind := ''close'', createdAt := ''T2'',
       metadata_to := ''did:customer'', data_reason := r\<rparr>"

section \<open>Properties of \<^verbatim>\<open>isMatchingOffering\<close>\<close>

subsection \<open>The loops and the match count\<close>

lemma subject_loop_count:
  "subject_loop p ks m
   = m + length (filter (\<lambda>key. ''$.credentialSubject.'' @ key \<in> set p) ks)"
  by (induction ks arbitrary: m) simp_all

lemma length_filter_remdups: "length (filter P (remdups xs)) = card (Set.filter P (set xs))"
proof -
  have "distinct (filter P (remdups xs))"
    by simp
  then have "length (filter P (remdups xs)) = card (set (filter P (remdups xs)))"
    by (rule distinct_card [symmetric])
  also have "set (filter P (remdups xs)) = Set.filter P (set xs)"
    by auto
  finally show ?thesis .
qed

lemma subject_loop_matches:
  "subject_loop (path f) (for_in (credentialSubject v)) m = m + subject_matches v f"
  by (cases "credentialSubject v")
    (simp_all add: subject_loop_count subject_matches_def claim_keys_def for_in_def
      length_filter_remdups)

text \<open>
  Whenever a step returns, it has added what the specification counts; and it returns
  when the field carries its required value.
\<close>

lemma issuer_step_Inr:
  "issuer_step E v f m = Inr m' \<Longrightarrow>
   m' = m + of_bool (issuer_equal E v f \<and> issuer v \<noteq> Some [])"
  by (auto simp: issuer_step_def issuer_equal_def required_value_def
      split: option.splits if_splits)

lemma type_step_Inr:
  "type_step E v f m = Inr m' \<Longrightarrow> m' = m + of_bool (type_member E v f)"
  by (auto simp: type_step_def type_member_def required_value_def
      split: option.splits if_splits)

lemma issuer_step_returns:
  "carries_required_value f \<Longrightarrow> \<exists>m'. issuer_step E v f m = Inr m'"
  by (auto simp: issuer_step_def carries_required_value_def required_value_def
      split: option.splits if_splits)

lemma type_step_returns:
  "carries_required_value f \<Longrightarrow> \<exists>m'. type_step E v f m = Inr m'"
  by (auto simp: type_step_def carries_required_value_def required_value_def
      split: option.splits if_splits)

lemma field_body_Inr:
  assumes "field_body E v f m = Inr m'"
  shows "m' = m + (subject_matches v f
                   + of_bool (issuer_equal E v f \<and> issuer v \<noteq> Some [])
                   + of_bool (type_member E v f))"
proof -
  from assms obtain m1 where
    i: "issuer_step E v f (m + subject_matches v f) = Inr m1" and
    t: "type_step E v f m1 = Inr m'"
    by (auto simp: field_body_def subject_loop_matches split: sum.splits)
  from issuer_step_Inr [OF i] type_step_Inr [OF t] show ?thesis
    by simp
qed

lemma field_body_returns:
  assumes "carries_required_value f"
  shows "\<exists>m'. field_body E v f m = Inr m'"
proof -
  from issuer_step_returns [OF assms] obtain m1 where
    "issuer_step E v f (subject_loop (path f) (for_in (credentialSubject v)) m) = Inr m1"
    by blast
  with type_step_returns [OF assms, of E v m1] show ?thesis
    by (auto simp: field_body_def)
qed

lemma fields_loop_Inr:
  "fields_loop E (Some v) fs m = Inr m' \<Longrightarrow> m' = m + match_count E v fs"
proof (induction fs arbitrary: m)
  case Nil
  then show ?case by (simp add: match_count_def)
next
  case (Cons f fs)
  from Cons.prems obtain m1 where
    body: "field_body E v f m = Inr m1" and rest: "fields_loop E (Some v) fs m1 = Inr m'"
    by (auto split: sum.splits)
  from field_body_Inr [OF body] Cons.IH [OF rest] show ?case
    by (simp add: match_count_def)
qed

lemma fields_loop_returns:
  "list_all carries_required_value fs \<Longrightarrow> \<exists>m'. fields_loop E (Some v) fs m = Inr m'"
proof (induction fs arbitrary: m)
  case Nil
  then show ?case by simp
next
  case (Cons f fs)
  then have "carries_required_value f" and rest: "list_all carries_required_value fs"
    by simp_all
  from field_body_returns [OF this(1)] obtain m1 where "field_body E v f m = Inr m1"
    by blast
  with Cons.IH [OF rest, of m1] show ?case
    by auto
qed

lemma first_credential_hd: "credentials \<noteq> [] \<Longrightarrow> first_credential credentials = Some (hd credentials)"
  by (cases credentials) (simp_all add: first_credential_def)

text \<open>
  Fixtures with no, one and several constraints against the credential \<open>kcc_vc\<close>:
  all constraints satisfied, none, a strict subset; a constraint that lists two
  subject paths, which counts twice and so fails alone but makes up for an unsatisfied
  constraint beside it; and the inputs on which the function throws.
\<close>

lemma isMatchingOffering_fixtures:
  "isMatchingOffering (string_env kcc_parse) (offering_of [[]]) [''jwt1''] = Inr True"
  "isMatchingOffering (string_env kcc_parse) (offering_of [[type_field]]) [''jwt1''] = Inr True"
  "isMatchingOffering (string_env kcc_parse) (offering_of [[other_issuer_field]]) [''jwt1'']
   = Inr False"
  "isMatchingOffering (string_env kcc_parse)
     (offering_of [[type_field, issuer_field, country_field]]) [''jwt1''] = Inr True"
  "isMatchingOffering (string_env kcc_parse)
     (offering_of [[type_field, other_issuer_field, country_field]]) [''jwt1''] = Inr False"
  "isMatchingOffering (string_env kcc_parse) (offering_of [[name_or_country_field]]) [''jwt1'']
   = Inr False"
  "isMatchingOffering (string_env kcc_parse)
     (offering_of [[name_or_country_field, other_issuer_field]]) [''jwt1''] = Inr True"
  "isMatchingOffering (string_env kcc_parse) (offering_of [[type_field]]) [''jwt2'']
   = Inl (Thrown ''Jwt.parse'')"
  "isMatchingOffering (string_env kcc_parse) (offering_of [[type_field]]) []
   = Inl (Thrown ''Jwt.parse'')"
  "isMatchingOffering (string_env kcc_parse) (offering_of []) [''jwt1''] = Inl TypeError"
  "isMatchingOffering (string_env kcc_parse) (offering_of [[type_field]]) [''jwt''] = Inl TypeError"
  "isMatchingOffering (string_env kcc_parse) (offering_of [[]]) [''jwt''] = Inr True"
  "isMatchingOffering (string_env kcc_parse) (offering_of [[type_pattern_field]]) [''jwt1'']
   = Inl TypeError"
  "isMatchingOffering (string_env kcc_parse) (offering_of [[issuer_unfiltered_field]]) [''jwt1'']
   = Inl TypeError"
  "isMatchingOffering (string_env kcc_parse) (offering_of [[issuer_unfiltered_field]]) [''jwt0'']
   = Inr False"
  "isMatchingOffering (string_env kcc_parse) (offering_of [[type_pattern_field]]) [''jwt0'']
   = Inr False"
  by code_simp+

subsection \<open>Claims\<close>

text \<open>
  Claim C1, as stated: the function returns true if and only if the match count, with
  one for every issuer constraint whose required value equals the credential's issuer,
  equals the number of constraints. It fails on a credential whose issuer is the empty
  string against the one constraint that requires the empty string as issuer: the
  count is one, the number of constraints is one, and the function returns false,
  since line 75 asks for a truthy issuer first.
\<close>

theorem isMatchingOffering_empty_issuer_counterexample:
  "\<not> (isMatchingOffering (string_env kcc_parse) (offering_of [[empty_issuer_field]]) [''jwt0'']
        = Inr True
      \<longleftrightarrow> claimed_match_count (string_env kcc_parse) unissued_vc [empty_issuer_field]
          = length [empty_issuer_field])"
proof -
  have "isMatchingOffering (string_env kcc_parse) (offering_of [[empty_issuer_field]]) [''jwt0'']
        = Inr False"
    by code_simp
  moreover have "claimed_match_count (string_env kcc_parse) unissued_vc [empty_issuer_field]
        = length [empty_issuer_field]"
    by code_simp
  ultimately show ?thesis by simp
qed

text \<open>
  Claim C1, amended. Let the first token of the credential list decode to a credential
  \<open>v\<close> and the offering have a first input descriptor. Whenever \<open>isMatchingOffering\<close>
  returns, it returns true if and only if the match count of \<open>v\<close> over the
  descriptor's constraint fields (one per credential-subject key whose path a
  constraint lists, one per issuer constraint whose required value equals an issuer
  that is not the empty string, one per type constraint whose required value is in
  the type list) equals the number of those fields; and it returns whenever every
  constraint that addresses the issuer or the type list carries its required value.
\<close>

theorem isMatchingOffering_iff_count:
  assumes "Jwt_parse E (first_credential credentials) = Inr (Some v)"
    and "input_descriptors (requiredClaims (offering_data offering)) = d # ds"
  shows "(isMatchingOffering E offering credentials = Inr b \<longrightarrow>
            b = (match_count E v (fields' (constraints d)) = length (fields' (constraints d))))
       \<and> (list_all carries_required_value (fields' (constraints d)) \<longrightarrow>
            isMatchingOffering E offering credentials
            = Inr (match_count E v (fields' (constraints d)) = length (fields' (constraints d))))"
proof (intro conjI impI)
  assume "isMatchingOffering E offering credentials = Inr b"
  with assms obtain m where
    loop: "fields_loop E (Some v) (fields' (constraints d)) 0 = Inr m"
    and b: "b = (m = length (fields' (constraints d)))"
    by (auto simp: isMatchingOffering_def split: sum.splits)
  from fields_loop_Inr [OF loop] b
  show "b = (match_count E v (fields' (constraints d)) = length (fields' (constraints d)))"
    by simp
next
  assume "list_all carries_required_value (fields' (constraints d))"
  from fields_loop_returns [OF this] obtain m where
    loop: "fields_loop E (Some v) (fields' (constraints d)) 0 = Inr m"
    by blast
  from fields_loop_Inr [OF loop] loop assms
  show "isMatchingOffering E offering credentials
        = Inr (match_count E v (fields' (constraints d)) = length (fields' (constraints d)))"
    by (simp add: isMatchingOffering_def)
qed

theorem isMatchingOffering_iff_count_witness:
  "Jwt_parse (string_env kcc_parse) (first_credential [''jwt1'']) = Inr (Some kcc_vc)
   \<and> input_descriptors (requiredClaims (offering_data
         (offering_of [[type_field, issuer_field, country_field]])))
       = [\<lparr>constraints = \<lparr>fields' = [type_field, issuer_field, country_field]\<rparr>\<rparr>]
   \<and> list_all carries_required_value [type_field, issuer_field, country_field]
   \<and> isMatchingOffering (string_env kcc_parse)
         (offering_of [[type_field, issuer_field, country_field]]) [''jwt1''] = Inr True
   \<and> match_count (string_env kcc_parse) kcc_vc [type_field, issuer_field, country_field]
       = length [type_field, issuer_field, country_field]"
proof -
  let ?fs = "[type_field, issuer_field, country_field]"
  have parse: "Jwt_parse (string_env kcc_parse) (first_credential [''jwt1'']) = Inr (Some kcc_vc)"
    by (simp add: string_env_def kcc_parse_def first_credential_def)
  have descs: "input_descriptors (requiredClaims (offering_data (offering_of [?fs])))
       = \<lparr>constraints = \<lparr>fields' = ?fs\<rparr>\<rparr> # []"
    by (simp add: offering_of_def)
  have carries: "list_all carries_required_value ?fs"
    by code_simp
  have run: "isMatchingOffering (string_env kcc_parse) (offering_of [?fs]) [''jwt1''] = Inr True"
    by code_simp
  note inst = isMatchingOffering_iff_count [OF parse descs, of True]
  from inst run have count: "match_count (string_env kcc_parse) kcc_vc ?fs = length ?fs"
    by simp
  from inst carries count
  have "isMatchingOffering (string_env kcc_parse) (offering_of [?fs]) [''jwt1''] = Inr True"
    by simp
  with parse descs carries count show ?thesis
    by (intro conjI) simp_all
qed

text \<open>
  Claim C8. The result, a thrown error included, depends on the offering and on the
  first credential token only: two non-empty credential lists with the same first
  element give the same result.
\<close>

theorem isMatchingOffering_first_token_only:
  assumes "credentials1 \<noteq> []" and "credentials2 \<noteq> []"
    and "hd credentials1 = hd credentials2"
  shows "isMatchingOffering E offering credentials1 = isMatchingOffering E offering credentials2"
  using assms by (simp add: isMatchingOffering_def first_credential_hd)

theorem isMatchingOffering_first_token_only_witness:
  "[''jwt1'', ''jwt2''] \<noteq> [] \<and> [''jwt1''] \<noteq> ([] :: string list)
   \<and> hd [''jwt1'', ''jwt2''] = hd [''jwt1'']
   \<and> isMatchingOffering (string_env kcc_parse) (offering_of [[type_field]]) [''jwt1'', ''jwt2'']
     = isMatchingOffering (string_env kcc_parse) (offering_of [[type_field]]) [''jwt1'']"
  using isMatchingOffering_first_token_only
    [of "[''jwt1'', ''jwt2'']" "[''jwt1'']" "string_env kcc_parse" "offering_of [[type_field]]"]
  by simp

text \<open>
  Claim C10. An offering whose first input descriptor has no constraint fields matches
  every credential list whose first token decodes; and two offerings with the same
  first input descriptor give the same result on every credential list, so the
  descriptors after the first are never consulted.
\<close>

theorem isMatchingOffering_no_constraints:
  "(Jwt_parse E (first_credential credentials) = Inr v
      \<and> input_descriptors (requiredClaims (offering_data offering)) = d # ds
      \<and> fields' (constraints d) = []
    \<longrightarrow> isMatchingOffering E offering credentials = Inr True)
   \<and> (input_descriptors (requiredClaims (offering_data offering)) = d # ds
      \<and> input_descriptors (requiredClaims (offering_data offering')) = d # ds'
    \<longrightarrow> isMatchingOffering E offering credentials = isMatchingOffering E offering' credentials)"
  by (auto simp: isMatchingOffering_def split: sum.splits)

theorem isMatchingOffering_no_constraints_witness:
  "Jwt_parse (string_env kcc_parse) (first_credential [''jwt1'']) = Inr (Some kcc_vc)
   \<and> input_descriptors (requiredClaims (offering_data (offering_of [[], [other_issuer_field]])))
       = [\<lparr>constraints = \<lparr>fields' = []\<rparr>\<rparr>, \<lparr>constraints = \<lparr>fields' = [other_issuer_field]\<rparr>\<rparr>]
   \<and> input_descriptors (requiredClaims (offering_data (offering_of [[]])))
       = [\<lparr>constraints = \<lparr>fields' = []\<rparr>\<rparr>]
   \<and> isMatchingOffering (string_env kcc_parse) (offering_of [[], [other_issuer_field]]) [''jwt1'']
       = Inr True
   \<and> isMatchingOffering (string_env kcc_parse) (offering_of [[], [other_issuer_field]]) [''jwt1'']
       = isMatchingOffering (string_env kcc_parse) (offering_of [[]]) [''jwt1'']"
proof -
  have parse: "Jwt_parse (string_env kcc_parse) (first_credential [''jwt1'']) = Inr (Some kcc_vc)"
    by (simp add: string_env_def kcc_parse_def first_credential_def)
  have descs: "input_descriptors (requiredClaims (offering_data (offering_of [[], [other_issuer_field]])))
       = \<lparr>constraints = \<lparr>fields' = ([] :: string field list)\<rparr>\<rparr>
         # [\<lparr>constraints = \<lparr>fields' = [other_issuer_field]\<rparr>\<rparr>]"
    by (simp add: offering_of_def)
  have descs': "input_descriptors (requiredClaims (offering_data (offering_of [[]])))
       = \<lparr>constraints = \<lparr>fields' = ([] :: string field list)\<rparr>\<rparr> # []"
    by (simp add: offering_of_def)
  note inst = isMatchingOffering_no_constraints
    [of "string_env kcc_parse" "[''jwt1'']" "Some kcc_vc" "offering_of [[], [other_issuer_field]]"
        "\<lparr>constraints = \<lparr>fields' = []\<rparr>\<rparr>"
        "[\<lparr>constraints = \<lparr>fields' = [other_issuer_field]\<rparr>\<rparr>]" "offering_of [[]]" "[]"]
  have matches: "isMatchingOffering (string_env kcc_parse)
      (offering_of [[], [other_issuer_field]]) [''jwt1''] = Inr True"
    using inst parse descs by simp
  have same: "isMatchingOffering (string_env kcc_parse)
      (offering_of [[], [other_issuer_field]]) [''jwt1'']
      = isMatchingOffering (string_env kcc_parse) (offering_of [[]]) [''jwt1'']"
    using inst descs descs' by blast
  from parse descs descs' matches same show ?thesis
    by (intro conjI) simp_all
qed

text \<open>The two counts differ only for a credential whose issuer is the empty string.\<close>

lemma claimed_match_count_eq:
  "issuer v \<noteq> Some [] \<Longrightarrow> claimed_match_count E v fs = match_count E v fs"
  by (simp add: claimed_match_count_def match_count_def)

section \<open>Properties of the status functions\<close>



lemma toLowerCase_length: "length (toLowerCase s) = length s"
  by (simp add: toLowerCase_def)

text \<open>
  The reasons of the specification's examples, messages that are not closes, and the
  arguments on which the status cannot be derived.
\<close>

lemma generateExchangeStatusValues_examples:
  "generateExchangeStatusValues (Some (close_with (Some ''Transaction complete''))) = Inr ''completed''"
  "generateExchangeStatusValues (Some (close_with (Some ''Payment SUCCESSFUL''))) = Inr ''completed''"
  "generateExchangeStatusValues (Some (close_with (Some ''payment EXPIRED''))) = Inr ''expired''"
  "generateExchangeStatusValues (Some (close_with (Some ''Order CANCELLED''))) = Inr ''cancelled''"
  "generateExchangeStatusValues (Some (close_with (Some ''Order cancelled by user'')))
   = Inr ''cancelled''"
  "generateExchangeStatusValues (Some (close_with (Some ''unknown failure''))) = Inr ''failed''"
  "generateExchangeStatusValues (Some (close_with (Some ''Cancelled after it was complete'')))
   = Inr ''completed''"
  "generateExchangeStatusValues (Some rfq_bare) = Inr ''rfq''"
  "generateExchangeStatusValues (Some quote_full) = Inr ''quote''"
  "generateExchangeStatusValues (Some (close_with None)) = Inl TypeError"
  "generateExchangeStatusValues None = Inl TypeError"
  by code_simp+

lemma renderOrderStatus_examples:
  "renderOrderStatus (Some rfq_bare) = Inr ''Requested''"
  "renderOrderStatus (Some quote_full) = Inr ''Quoted''"
  "renderOrderStatus (Some blank_message) = Inr ''Pending''"
  "renderOrderStatus (Some (blank_message\<lparr>kind := ''orderstatus''\<rparr>)) = Inr ''Pending''"
  "renderOrderStatus (Some (close_with (Some ''Transaction complete''))) = Inr ''Completed''"
  "renderOrderStatus (Some (close_with (Some ''payment EXPIRED''))) = Inr ''Expired''"
  "renderOrderStatus (Some (close_with (Some ''Order CANCELLED''))) = Inr ''Cancelled''"
  "renderOrderStatus (Some (close_with (Some ''unknown failure''))) = Inr ''Failed''"
  "renderOrderStatus (Some (blank_message\<lparr>kind := ''orderinstructions''\<rparr>)) = Inr ''Unknown status''"
  "renderOrderStatus None = Inl TypeError"
  by code_simp+



text \<open>
  Claim C5, as stated: \<open>renderOrderStatus\<close> has no failure mode. It fails on a close
  message that has no reason: line 123 reads \<^verbatim>\<open>reason.toLowerCase()\<close>.
\<close>

theorem renderOrderStatus_close_without_reason_counterexample:
  "renderOrderStatus (Some (close_with None)) = Inl TypeError"
  by code_simp

text \<open>
  Claim C5, amended. \<open>renderOrderStatus\<close> takes a message. On every message that is
  not a close without a reason it returns a string, the label of the status that
  \<open>generateExchangeStatusValues\<close> derives from the message: Requested, Quoted,
  Pending, Pending, Completed, Expired, Cancelled, Failed for rfq, quote, order,
  orderstatus, completed, expired, cancelled, failed, and \<open>Unknown status\<close> for every
  other status.
\<close>

theorem renderOrderStatus_labels:
  assumes "has_reason_if_Close m"
  shows "\<exists>s. generateExchangeStatusValues (Some m) = Inr s
             \<and> renderOrderStatus (Some m) = Inr (status_label s)"
proof -
  from assms obtain s where s: "generateExchangeStatusValues (Some m) = Inr s"
    by (auto simp: generateExchangeStatusValues_def has_reason_if_Close_def
        split: option.splits if_splits)
  then have "renderOrderStatus (Some m) = Inr (status_label s)"
    by (simp add: renderOrderStatus_def status_label_def status_labels_def)
  with s show ?thesis by blast
qed

theorem renderOrderStatus_labels_witness:
  "has_reason_if_Close (close_with (Some ''payment EXPIRED''))
   \<and> generateExchangeStatusValues (Some (close_with (Some ''payment EXPIRED''))) = Inr ''expired''
   \<and> renderOrderStatus (Some (close_with (Some ''payment EXPIRED''))) = Inr ''Expired''
   \<and> status_label ''expired'' = ''Expired''"
proof -
  let ?c = "close_with (Some ''payment EXPIRED'')"
  have ok: "has_reason_if_Close ?c"
    by (simp add: has_reason_if_Close_def close_with_def)
  have st: "generateExchangeStatusValues (Some ?c) = Inr ''expired''"
    by code_simp
  have label: "status_label ''expired'' = ''Expired''"
    by (simp add: status_label_def status_labels_def)
  from renderOrderStatus_labels [OF ok] st label
  have "renderOrderStatus (Some ?c) = Inr ''Expired''"
    by auto
  with ok st label show ?thesis
    by (intro conjI) simp_all
qed

text \<open>The labels of the eight status values, one by one, and of other strings.\<close>

lemma status_label_values:
  "status_label ''rfq'' = ''Requested''"
  "status_label ''quote'' = ''Quoted''"
  "status_label ''order'' = ''Pending''"
  "status_label ''orderstatus'' = ''Pending''"
  "status_label ''completed'' = ''Completed''"
  "status_label ''expired'' = ''Expired''"
  "status_label ''cancelled'' = ''Cancelled''"
  "status_label ''failed'' = ''Failed''"
  "s \<notin> set (map fst status_labels) \<Longrightarrow> status_label s = ''Unknown status''"
  by (auto simp: status_label_def status_labels_def)

section \<open>Properties of the projection\<close>

lemma projectExchange_Inr:
  assumes "projectExchange N exchange = Inr s"
  obtains rfqMessage quoteMessage where
    "exchange \<noteq> []"
    "find (\<lambda>message. kind message = ''rfq'') exchange = Some rfqMessage"
    "find (\<lambda>message. kind message = ''quote'') exchange = Some quoteMessage"
    "expirationTime s = (if kind (last exchange) = ''quote''
        then Some (or_null (data_expiresAt quoteMessage)) else None)"
    "generateExchangeStatusValues (Some (last exchange)) = Inr (status s)"
    "payinCurrency s = or_null (Option.bind (data_payin quoteMessage) currencyCode)"
    "payoutAmount s = or_null (Option.bind (data_payout quoteMessage) amount)"
    "payoutCurrency s = or_undefined (Option.bind (data_payout quoteMessage) currencyCode)"
  using assms
  by (auto simp: projectExchange_def generateExchangeStatusValues_def Let_def
      split: if_splits option.splits sum.splits)

text \<open>
  When the projection returns a summary: the exchange is not empty, its last message
  is not a close without a reason, it has an rfq whose private data, if any, has a
  payout, and it has a quote.
\<close>

lemma projectExchange_returns:
  assumes "exchange \<noteq> []"
    and "has_reason_if_Close (last exchange)"
    and "find (\<lambda>message. kind message = ''rfq'') exchange = Some rfqMessage"
    and "payout_paymentDetails rfqMessage = Inr details"
    and "find (\<lambda>message. kind message = ''quote'') exchange = Some quoteMessage"
  shows "\<exists>s. projectExchange N exchange = Inr s"
proof -
  from assms(2) obtain st where "generateExchangeStatusValues (Some (last exchange)) = Inr st"
    by (auto simp: generateExchangeStatusValues_def has_reason_if_Close_def
        split: option.splits if_splits)
  with assms show ?thesis
    by (simp add: projectExchange_def Let_def)
qed

text \<open>Without a quote message line 104 throws, whatever else the exchange holds.\<close>

lemma projectExchange_no_quote:
  assumes "find (\<lambda>message. kind message = ''quote'') exchange = None"
  shows "projectExchange N exchange = Inl TypeError"
proof (cases "projectExchange N exchange")
  case (Inl e)
  then show ?thesis
    by (auto simp: projectExchange_def generateExchangeStatusValues_def
        payout_paymentDetails_def Let_def split: if_splits option.splits sum.splits)
next
  case (Inr s)
  then show ?thesis
    using assms by (elim projectExchange_Inr) simp
qed

text \<open>
  The string of a number is never empty in JavaScript; under that assumption the
  right operand of \<^verbatim>\<open>||\<close> in line 103 is never taken.
\<close>

lemma projectExchange_payinAmount:
  assumes "projectExchange N exchange = Inr s"
    and "\<And>n. Number_toString N n \<noteq> []"
  shows "\<exists>n. payinAmount s = Val (Number_toString N n)"
  using assms
  by (auto simp: projectExchange_def Let_def split: if_splits option.splits sum.splits)

text \<open>
  In line 111 the middle operand of \<^verbatim>\<open>||\<close> contains \<open>'', ''\<close>, so it is truthy and the
  literal \<open>Unknown\<close> is never taken.
\<close>

lemma projectExchange_to:
  assumes "projectExchange N exchange = Inr s"
    and "find (\<lambda>message. kind message = ''rfq'') exchange = Some rfqMessage"
  shows "\<exists>d. payout_paymentDetails rfqMessage = Inr d \<and> to s =
     (if truthy (Option.bind d address) then as_string (Option.bind d address)
      else as_string (Option.bind d accountNumber) @ '', ''
           @ as_string (Option.bind d bankName))"
  using assms
  by (auto simp: projectExchange_def Let_def split: if_splits option.splits sum.splits)

text \<open>The scenarios of the specification with a quote, and inputs that throw.\<close>

lemma projectExchange_scenarios:
  "projectExchange decimal_numbers [rfq_addr, quote_full]
   = Inr \<lparr>id' = ''ex1'', payinAmount = Val ''105'', payinCurrency = Val ''USD'',
          payoutAmount = Val ''90'', payoutCurrency = Val ''KES'', status = ''quote'',
          createdTime = ''T0'', expirationTime = Some (Val ''2024-01-01''),
          from = ''You'', to = ''addr1'', pfiDid = ''PFI1''\<rparr>"
  "projectExchange decimal_numbers
     [rfq_addr, quote_full, close_with (Some ''Order cancelled by user'')]
   = Inr \<lparr>id' = ''ex1'', payinAmount = Val ''105'', payinCurrency = Val ''USD'',
          payoutAmount = Val ''90'', payoutCurrency = Val ''KES'', status = ''cancelled'',
          createdTime = ''T0'', expirationTime = None,
          from = ''You'', to = ''addr1'', pfiDid = ''PFI1''\<rparr>"
  "projectExchange decimal_numbers [] = Inl TypeError"
  "projectExchange decimal_numbers [quote_full] = Inl TypeError"
  "projectExchange decimal_numbers [rfq_addr, quote_full, close_with None] = Inl TypeError"
  "projectExchange decimal_numbers [rfq_bare\<lparr>privateData := Some \<lparr>payout = None\<rparr>\<rparr>, quote_full]
   = Inl TypeError"
  by code_simp+

text \<open>
  Claim C7. In every summary the projection returns, the field \<open>expirationTime\<close> is
  present if and only if the last message of the sequence has kind \<open>quote\<close>; when
  present, its value is the \<open>expiresAt\<close> of the quote message, or \<open>null\<close> when the
  quote has none.
\<close>

theorem expirationTime_iff_latest_quote:
  assumes "projectExchange N exchange = Inr s"
  shows "(expirationTime s \<noteq> None \<longleftrightarrow> kind (last exchange) = ''quote'')
    \<and> (kind (last exchange) = ''quote'' \<longrightarrow>
         (\<exists>quoteMessage.
            find (\<lambda>message. kind message = ''quote'') exchange = Some quoteMessage
            \<and> expirationTime s
                = Some (case data_expiresAt quoteMessage of None \<Rightarrow> Null | Some e \<Rightarrow> Val e)))"
  using assms by (elim projectExchange_Inr) (simp add: or_null_def)

theorem expirationTime_iff_latest_quote_witness:
  "projectExchange decimal_numbers [rfq_addr, quote_full\<lparr>data_expiresAt := None\<rparr>]
   = Inr \<lparr>id' = ''ex1'', payinAmount = Val ''105'', payinCurrency = Val ''USD'',
          payoutAmount = Val ''90'', payoutCurrency = Val ''KES'', status = ''quote'',
          createdTime = ''T0'', expirationTime = Some Null,
          from = ''You'', to = ''addr1'', pfiDid = ''PFI1''\<rparr>
   \<and> kind (last [rfq_addr, quote_full\<lparr>data_expiresAt := None\<rparr>]) = ''quote''
   \<and> find (\<lambda>message. kind message = ''quote'') [rfq_addr, quote_full\<lparr>data_expiresAt := None\<rparr>]
       = Some (quote_full\<lparr>data_expiresAt := None\<rparr>)"
proof -
  let ?ex = "[rfq_addr, quote_full\<lparr>data_expiresAt := None\<rparr>]"
  let ?s = "\<lparr>id' = ''ex1'', payinAmount = Val ''105'', payinCurrency = Val ''USD'',
          payoutAmount = Val ''90'', payoutCurrency = Val ''KES'', status = ''quote'',
          createdTime = ''T0'', expirationTime = Some Null,
          from = ''You'', to = ''addr1'', pfiDid = ''PFI1''\<rparr>"
  have run: "projectExchange decimal_numbers ?ex = Inr ?s"
    by code_simp
  have latest: "kind (last ?ex) = ''quote''"
    by (simp add: quote_full_def)
  from expirationTime_iff_latest_quote [OF run] latest
  obtain q where "find (\<lambda>message. kind message = ''quote'') ?ex = Some q"
    and "expirationTime ?s = Some (case data_expiresAt q of None \<Rightarrow> Null | Some e \<Rightarrow> Val e)"
    by blast
  moreover have "find (\<lambda>message. kind message = ''quote'') ?ex
      = Some (quote_full\<lparr>data_expiresAt := None\<rparr>)"
    by (simp add: rfq_addr_def rfq_bare_def quote_full_def)
  ultimately show ?thesis using run latest by simp
qed

section \<open>Where the projection departs from its description\<close>

text \<open>
  Claim C3. The summary's \<open>payinAmount\<close> is to fall back to the rfq's requested
  amount when the exchange has no quote. On the sequence of one rfq with
  \<open>payinAmount\<close> 100, address \<open>addr1\<close> and recipient \<open>PFI1\<close> the projection throws
  instead: line 104 reads \<^verbatim>\<open>quoteMessage.data\<close> of the missing quote.
\<close>

theorem projectExchange_rfq_only:
  "projectExchange decimal_numbers [rfq_addr] = Inl TypeError"
  by code_simp

text \<open>
  With a quote that has no payin payload the amount is the string of \<open>NaN\<close>, not the
  rfq's amount: with the numbers of \<open>decimal_numbers\<close>, whose strings are not empty,
  no summary has the rfq's amount. And \<^verbatim>\<open>fetchExchanges\<close> wraps the error of an
  exchange without a quote.
\<close>

lemma decimal_digits_not_empty: "decimal_digits n \<noteq> []"
  by (subst decimal_digits.simps) simp

lemma decimal_numbers_payinAmount:
  assumes "projectExchange decimal_numbers exchange = Inr s"
  shows "\<exists>n. payinAmount s = Val (Number_toString decimal_numbers n)"
proof (rule projectExchange_payinAmount [OF assms])
  fix n
  show "Number_toString decimal_numbers n \<noteq> []"
    by (cases n) (simp_all add: decimal_numbers_def decimal_digits_not_empty)
qed

lemma projectExchange_quote_without_payin:
  "map_sum id payinAmount
     (projectExchange decimal_numbers [rfq_addr, quote_full\<lparr>data_payin := None\<rparr>])
   = Inr (Val ''NaN'')"
  by code_simp

lemma fetchExchanges_rfq_only:
  "fetchExchanges decimal_numbers (Inr [[rfq_addr, quote_full], [rfq_addr]])
   = Inl (Error ''Error fetching exchanges: '' TypeError)"
  by code_simp

text \<open>
  Claim C4. The summary's \<open>to\<close> is to be the literal \<open>Unknown\<close> when the rfq has
  neither address nor account number nor bank name. On an rfq without private data,
  followed by a quote, it is the string \<open>undefined, undefined\<close>.
\<close>

theorem projectExchange_to_without_details:
  "map_sum id to (projectExchange decimal_numbers [rfq_bare, quote_full])
   = Inr ''undefined, undefined''"
  by code_simp

text \<open>An empty address falls through to account number and bank name.\<close>

lemma projectExchange_to_empty_address:
  "map_sum id to
     (projectExchange decimal_numbers
        [rfq_bare\<lparr>privateData := Some \<lparr>payout = Some \<lparr>paymentDetails =
           Some \<lparr>address = Some [], accountNumber = Some ''0123'',
                 bankName = Some ''KCB''\<rparr>\<rparr>\<rparr>\<rparr>,
         quote_full])
   = Inr ''0123, KCB''"
  by code_simp

text \<open>
  Claim C6. \<open>payinCurrency\<close>, \<open>payoutAmount\<close> and \<open>payoutCurrency\<close> are each to be
  \<open>null\<close> when the quote lacks the payload or the exchange has no quote. On an
  exchange of one rfq the projection throws, and on a quote without payin and payout
  payloads the first two are \<open>null\<close> and \<open>payoutCurrency\<close> is \<^verbatim>\<open>undefined\<close>: line
  106 has no \<^verbatim>\<open>?? null\<close>.
\<close>

theorem projectExchange_currencies_without_payloads:
  "projectExchange decimal_numbers [rfq_bare] = Inl TypeError
   \<and> map_sum id (\<lambda>s. (payinCurrency s, payoutAmount s, payoutCurrency s))
         (projectExchange decimal_numbers
            [rfq_addr, quote_full\<lparr>data_payin := None, data_payout := None\<rparr>])
       = Inr (Null, Null, Undefined)"
  by code_simp


end
